theory Spec2Isabelle
  imports Complex_Main
begin

section \<open>Time\<close>

text \<open>
  The planner works on dayjs values. A dayjs value is modelled by the number of
  milliseconds since 1970-01-01T00:00 on the wall clock of the process; the zone has a
  fixed offset (no daylight-saving changes), so that adding a day adds 86400000 ms and
  the fields of a value are read off by division. 1970-01-01 was a Thursday (day 4,
  Sunday being 0). The reading of the clock, \<open>dayjs()\<close>, is the parameter \<open>now\<close> of
  every operation that reads it.
\<close>

type_synonym instant = int

definition hour :: "instant \<Rightarrow> int" where
  "hour t = (t div 3600000) mod 24"

definition minute :: "instant \<Rightarrow> int" where
  "minute t = (t div 60000) mod 60"

definition second :: "instant \<Rightarrow> int" where
  "second t = (t div 1000) mod 60"

definition day :: "instant \<Rightarrow> int" where
  "day t = (t div 86400000 + 4) mod 7"

text \<open>Setters keep every other field; a value out of the field's range carries over.\<close>

definition set_hour :: "instant \<Rightarrow> int \<Rightarrow> instant" where
  "set_hour t h = t + (h - hour t) * 3600000"

definition set_minute :: "instant \<Rightarrow> int \<Rightarrow> instant" where
  "set_minute t m = t + (m - minute t) * 60000"

definition set_second :: "instant \<Rightarrow> int \<Rightarrow> instant" where
  "set_second t s = t + (s - second t) * 1000"

definition add_days :: "instant \<Rightarrow> int \<Rightarrow> instant" where
  "add_days t n = t + n * 86400000"

definition add_hours :: "instant \<Rightarrow> int \<Rightarrow> instant" where
  "add_hours t n = t + n * 3600000"

definition add_minutes :: "instant \<Rightarrow> int \<Rightarrow> instant" where
  "add_minutes t n = t + n * 60000"

text \<open>\<open>t.hour(h).minute(0).second(0)\<close>: the milliseconds of \<open>t\<close> stay.\<close>

definition atHour :: "instant \<Rightarrow> int \<Rightarrow> instant" where
  "atHour t h = set_second (set_minute (set_hour t h) 0) 0"

section \<open>Data\<close>

record SchedulingConstraints =
  workHoursPerDay :: int
  startHour :: int
  endHour :: int
  daysOfWeek :: "int list"

record Scheduled =
  start :: instant
  end_at :: instant

record AISubtask =
  part :: int
  title :: string
  details :: string
  assignee :: string
  estimatedMinutes :: int
  scheduled :: Scheduled

record Member =
  member_id :: "int option"
  name :: string
  role :: "string option"

record PlanningInput =
  input_title :: string
  description :: string
  dueDate :: instant
  parts :: int
  teamId :: "int option"
  members :: "Member list"
  constraints :: SchedulingConstraints

datatype error = TypeError | AIServiceError


section \<open>Sorting with a comparator\<close>

text \<open>
  \<open>Array.prototype.sort\<close> is stable; with a comparator that is a consistent ordering
  its result is the stable insertion sort below, whatever algorithm the engine runs.
\<close>

fun insertBy :: "('a \<Rightarrow> 'a \<Rightarrow> int) \<Rightarrow> 'a \<Rightarrow> 'a list \<Rightarrow> 'a list" where
  "insertBy cmp x [] = [x]"
| "insertBy cmp x (y # ys) = (if cmp x y \<le> 0 then x # y # ys else y # insertBy cmp x ys)"

definition sortBy :: "('a \<Rightarrow> 'a \<Rightarrow> int) \<Rightarrow> 'a list \<Rightarrow> 'a list" where
  "sortBy cmp xs = foldr (insertBy cmp) xs []"

section \<open>Scheduler.rescheduleTasks\<close>







section \<open>AIPlanner.scheduleTasks\<close>

text \<open>The loop \<open>while (!daysOfWeek.includes(nextSlot.day()))\<close>, written twice in the source.\<close>

partial_function (option) scheduleTasks_while ::
  "instant \<Rightarrow> SchedulingConstraints \<Rightarrow> instant option" where
  "scheduleTasks_while nextSlot c =
     (if day nextSlot \<notin> set (daysOfWeek c)
      then scheduleTasks_while (atHour (add_days nextSlot 1) (startHour c)) c
      else Some nextSlot)"

declare scheduleTasks_while.simps [code]

text \<open>The slot of one task, from the member's next free instant.\<close>

definition scheduleTasks_slot ::
  "instant \<Rightarrow> int \<Rightarrow> SchedulingConstraints \<Rightarrow> instant option" where
  "scheduleTasks_slot slot0 taskDuration c =
     (case scheduleTasks_while slot0 c of
        None \<Rightarrow> None
      | Some nextSlot \<Rightarrow>
          if add_minutes nextSlot taskDuration > set_hour nextSlot (endHour c)
          then scheduleTasks_while (atHour (add_days nextSlot 1) (startHour c)) c
          else Some nextSlot)"

text \<open>
  \<open>scheduleTasks\<close> writes into the records of the list it is given; the model returns
  the list as the caller sees it afterwards. A task with an empty assignee or with zero
  minutes is passed over and keeps the schedule it had. The due date is a parameter of the
  source that it never reads.
\<close>

fun scheduleTasks_loop ::
  "instant \<Rightarrow> SchedulingConstraints \<Rightarrow> (string \<rightharpoonup> instant) \<Rightarrow>
   AISubtask list \<Rightarrow> AISubtask list option" where
  "scheduleTasks_loop currentDate c memberSchedules [] = Some []"
| "scheduleTasks_loop currentDate c memberSchedules (task # rest) =
     (if assignee task = [] \<or> estimatedMinutes task = 0
      then (case scheduleTasks_loop currentDate c memberSchedules rest of
              None \<Rightarrow> None
            | Some placed \<Rightarrow> Some (task # placed))
      else
       (case scheduleTasks_slot
               (case memberSchedules (assignee task) of
                  Some s \<Rightarrow> s
                | None \<Rightarrow> atHour currentDate (startHour c))
               (estimatedMinutes task) c of
          None \<Rightarrow> None
        | Some startTime \<Rightarrow>
            (case scheduleTasks_loop currentDate c
                    (memberSchedules(assignee task \<mapsto>
                       add_minutes (add_minutes startTime (estimatedMinutes task)) 15)) rest of
               None \<Rightarrow> None
             | Some placed \<Rightarrow>
                 Some (task\<lparr>scheduled :=
                         \<lparr>start = startTime,
                          end_at = add_minutes startTime (estimatedMinutes task)\<rparr>\<rparr>
                       # placed))))"

definition scheduleTasks ::
  "instant \<Rightarrow> AISubtask list \<Rightarrow> SchedulingConstraints \<Rightarrow> AISubtask list option" where
  "scheduleTasks now subtasks c = scheduleTasks_loop (add_days now 1) c Map.empty subtasks"


section \<open>AIPlanner.generateFallbackPlan\<close>

text \<open>
  Strings are lists of characters. \<open>toLowerCase\<close> maps the letters A to Z and leaves
  every other character as it is; \<open>includes_str\<close> is the substring test of \<open>String.includes\<close>.
\<close>

definition toLowerChar :: "char \<Rightarrow> char" where
  "toLowerChar ch =
     (let n = (of_char ch :: nat) in if 65 \<le> n \<and> n \<le> 90 then char_of (n + 32) else ch)"

definition toLowerCase :: "string \<Rightarrow> string" where
  "toLowerCase s = map toLowerChar s"

fun includes_str :: "string \<Rightarrow> string \<Rightarrow> bool" where
  "includes_str [] p = (p = [])"
| "includes_str (x # xs) p = (take (length p) (x # xs) = p \<or> includes_str xs p)"

fun decimal :: "nat \<Rightarrow> string" where
  "decimal n =
     (if n < 10 then [char_of (48 + n)]
      else decimal (n div 10) @ [char_of (48 + n mod 10)])"

declare decimal.simps [simp del]

definition numberToString :: "int \<Rightarrow> string" where
  "numberToString n = (if n < 0 then CHR ''-'' # decimal (nat (- n)) else decimal (nat n))"

text \<open>\<open>Partial<AISubtask>\<close>: every field may be missing.\<close>

record PartialSubtask =
  p_part :: "int option"
  p_title :: "string option"
  p_details :: "string option"
  p_assignee :: "string option"
  p_estimatedMinutes :: "int option"
  p_scheduled :: "Scheduled option"

text \<open>\<open>x || d\<close> on a number that may be missing, and on a string that may be missing.\<close>

definition orNumber :: "int option \<Rightarrow> int \<Rightarrow> int" where
  "orNumber x d = (case x of None \<Rightarrow> d | Some n \<Rightarrow> if n = 0 then d else n)"

definition orString :: "string option \<Rightarrow> string \<Rightarrow> string" where
  "orString x d = (case x of None \<Rightarrow> d | Some s \<Rightarrow> if s = [] then d else s)"

definition taskTemplates :: "(string \<times> string \<times> int) list" where
  "taskTemplates =
     [(''Research and Planning'', ''Initial research and planning phase'', 120),
      (''Analysis and Investigation'', ''Detailed analysis of requirements'', 180),
      (''Development and Creation'', ''Main development or creation work'', 240),
      (''Review and Testing'', ''Quality review and testing'', 90),
      (''Documentation'', ''Create documentation and reports'', 60),
      (''Finalization'', ''Final review and polish'', 60)]"

definition generatePartTasks :: "int \<Rightarrow> int \<Rightarrow> string \<Rightarrow> string \<Rightarrow> PartialSubtask list" where
  "generatePartTasks partNumber tasksPerPart ttl descr =
     map (\<lambda>i. case taskTemplates ! (i mod length taskTemplates) of
                 (template_title, template_details, template_minutes) \<Rightarrow>
                   \<lparr>p_part = Some partNumber,
                    p_title = Some (''Part '' @ numberToString partNumber @ '': '' @ template_title),
                    p_details = Some (template_details @ '' for '' @ ttl),
                    p_assignee = None,
                    p_estimatedMinutes = Some template_minutes,
                    p_scheduled = None\<rparr>)
         [0..<nat tasksPerPart]"

text \<open>The record \<open>completeTask\<close>; \<open>member0\<close> is \<open>members[0]\<close>.\<close>

definition completeTask :: "instant \<Rightarrow> int \<Rightarrow> Member \<Rightarrow> PartialSubtask \<Rightarrow> AISubtask" where
  "completeTask now partNumber member0 task =
     \<lparr>part = orNumber (p_part task) partNumber,
      title = orString (p_title task) (''Part '' @ numberToString partNumber @ '' Task''),
      details = orString (p_details task) ''No details provided'',
      assignee = orString (p_assignee task) (name member0),
      estimatedMinutes = orNumber (p_estimatedMinutes task) 60,
      scheduled = (case p_scheduled task of
                     Some s \<Rightarrow> s
                   | None \<Rightarrow> \<lparr>start = add_days now 1, end_at = add_hours (add_days now 1) 1\<rparr>)\<rparr>"

definition rolePreferences :: "(string \<times> string list) list" where
  "rolePreferences =
     [(''Research'', [''Research'', ''Analysis'', ''Investigation'']),
      (''Writing'', [''Documentation'', ''Creation'', ''Development'']),
      (''Review'', [''Review'', ''Testing'', ''Finalization'']),
      (''Analysis'', [''Analysis'', ''Investigation'', ''Research'']),
      (''Design'', [''Development'', ''Creation'', ''Planning''])]"

text \<open>The loop over the members, left at the first member whose role matches the text.\<close>

fun preferredMember :: "Member list \<Rightarrow> string \<Rightarrow> Member option" where
  "preferredMember [] taskText = None"
| "preferredMember (member # rest) taskText =
     (case role member of
        None \<Rightarrow> preferredMember rest taskText
      | Some r \<Rightarrow>
          (case map_of rolePreferences r of
             None \<Rightarrow> preferredMember rest taskText
           | Some preferences \<Rightarrow>
               if list_ex (\<lambda>pref. includes_str taskText (toLowerCase pref)) preferences
               then Some member
               else preferredMember rest taskText))"

definition assignedMember :: "Member list \<Rightarrow> nat \<Rightarrow> AISubtask \<Rightarrow> Member" where
  "assignedMember mbrs index task =
     (if title task \<noteq> [] \<and> details task \<noteq> []
      then (case preferredMember mbrs (toLowerCase (title task @ '' '' @ details task)) of
              Some member \<Rightarrow> member
            | None \<Rightarrow> mbrs ! (index mod length mbrs))
      else mbrs ! (index mod length mbrs))"

text \<open>
  With no members, \<open>members[index % 0]\<close> is undefined and reading its name throws on the
  first task.
\<close>

definition assignMembersToTasks :: "AISubtask list \<Rightarrow> Member list \<Rightarrow> error + AISubtask list" where
  "assignMembersToTasks subtasks mbrs =
     (if mbrs = [] \<and> subtasks \<noteq> [] then Inl TypeError
      else Inr (map (\<lambda>(index, task). task\<lparr>assignee := name (assignedMember mbrs index task)\<rparr>)
                  (enumerate 0 subtasks)))"

text \<open>
  The plan is the list the three steps leave behind. Completing the first task reads
  \<open>members[0].name\<close>, which throws when there is no member.
\<close>

definition generateFallbackPlan :: "instant \<Rightarrow> PlanningInput \<Rightarrow> (error + AISubtask list) option" where
  "generateFallbackPlan now input =
     (let tasksPerPart = max 2 (8 div parts input);
          partTasks = concat (map (\<lambda>partNumber.
                        map (Pair partNumber)
                          (generatePartTasks partNumber tasksPerPart
                             (input_title input) (description input)))
                        [1..parts input])
      in case members input of
           [] \<Rightarrow> if partTasks = [] then Some (Inr []) else Some (Inl TypeError)
         | member0 # _ \<Rightarrow>
             (case assignMembersToTasks
                     (map (\<lambda>(partNumber, task). completeTask now partNumber member0 task) partTasks)
                     (members input) of
                Inl e \<Rightarrow> Some (Inl e)
              | Inr subtasks \<Rightarrow> map_option Inr (scheduleTasks now subtasks (constraints input))))"

section \<open>AIPlanner.validateAndRepairPlan\<close>

text \<open>
  The candidate records come from the provider's JSON: any field may be missing. A
  timestamp string is modelled by what dayjs makes of it, the instant it denotes or
  nothing; \<open>toISOString\<close> of an instant is that instant again. The repaired records are
  of the same loose type, since with no members the repaired assignee is undefined.
\<close>

datatype DateStr = Unparseable | Parseable instant

record ScheduledJson =
  j_start :: "DateStr option"
  j_end :: "DateStr option"

record AISubtaskJson =
  j_part :: "int option"
  j_title :: "string option"
  j_details :: "string option"
  j_assignee :: "string option"
  j_estimatedMinutes :: "int option"
  j_scheduled :: "ScheduledJson option"

fun validateDateTime :: "DateStr option \<Rightarrow> instant option" where
  "validateDateTime None = None"
| "validateDateTime (Some Unparseable) = None"
| "validateDateTime (Some (Parseable t)) = Some t"

definition getDefaultStartTime :: "instant \<Rightarrow> nat \<Rightarrow> PlanningInput \<Rightarrow> instant" where
  "getDefaultStartTime now index input =
     add_hours (atHour (add_days now 1) (startHour (constraints input))) (int index * 2)"

definition getDefaultEndTime :: "instant \<Rightarrow> nat \<Rightarrow> PlanningInput \<Rightarrow> int \<Rightarrow> instant" where
  "getDefaultEndTime now index input minutes =
     add_minutes (getDefaultStartTime now index input) minutes"

text \<open>
  The default part number divides in floating point in the source; the model divides
  exactly. A division by zero gives infinity there and 0 here, and both reach part 1.
\<close>

definition repairSubtask ::
  "instant \<Rightarrow> PlanningInput \<Rightarrow> nat \<Rightarrow> nat \<Rightarrow> AISubtaskJson \<Rightarrow> AISubtaskJson" where
  "repairSubtask now input len index subtask =
     (let memberNames = map name (members input);
          fallbackAssignee = (if memberNames = [] then None
                              else Some (memberNames ! (index mod length memberNames)))
      in \<lparr>j_part = Some (orNumber (j_part subtask)
                    (\<lfloor>rat_of_nat index / (rat_of_nat len / rat_of_int (parts input))\<rfloor> + 1)),
          j_title = Some (orString (j_title subtask) (''Task '' @ decimal (index + 1))),
          j_details = Some (orString (j_details subtask) ''No details provided''),
          j_assignee = (case j_assignee subtask of
                          None \<Rightarrow> fallbackAssignee
                        | Some a \<Rightarrow> if a \<in> set memberNames then Some a else fallbackAssignee),
          j_estimatedMinutes = Some (case j_estimatedMinutes subtask of
                                       None \<Rightarrow> 60
                                     | Some m \<Rightarrow> if m > 0 then m else 60),
          j_scheduled = Some
            \<lparr>j_start = Some (Parseable
               (case validateDateTime (case j_scheduled subtask of None \<Rightarrow> None | Some sch \<Rightarrow> j_start sch) of
                  Some t \<Rightarrow> t
                | None \<Rightarrow> getDefaultStartTime now index input)),
             j_end = Some (Parseable
               (case validateDateTime (case j_scheduled subtask of None \<Rightarrow> None | Some sch \<Rightarrow> j_end sch) of
                  Some t \<Rightarrow> t
                | None \<Rightarrow> getDefaultEndTime now index input
                            (orNumber (j_estimatedMinutes subtask) 60)))\<rparr>\<rparr>)"

text \<open>The response is \<open>None\<close> when it has no plan or its subtasks are not an array.\<close>

definition validateAndRepairPlan ::
  "instant \<Rightarrow> AISubtaskJson list option \<Rightarrow> PlanningInput \<Rightarrow> error + AISubtaskJson list" where
  "validateAndRepairPlan now aiResponse input =
     (case aiResponse of
        None \<Rightarrow> Inl AIServiceError
      | Some subtasks \<Rightarrow>
          Inr (map (\<lambda>(index, subtask). repairSubtask now input (length subtasks) index subtask)
                 (enumerate 0 subtasks)))"

text \<open>The records the specification calls well formed, for a list of members.\<close>

definition wellFormed :: "Member list \<Rightarrow> AISubtaskJson \<Rightarrow> bool" where
  "wellFormed mbrs subtask \<longleftrightarrow>
     (case j_part subtask of None \<Rightarrow> False | Some p \<Rightarrow> 1 \<le> p) \<and>
     (case j_title subtask of None \<Rightarrow> False | Some s \<Rightarrow> s \<noteq> []) \<and>
     (case j_details subtask of None \<Rightarrow> False | Some s \<Rightarrow> s \<noteq> []) \<and>
     (case j_assignee subtask of None \<Rightarrow> False | Some a \<Rightarrow> a \<in> set (map name mbrs)) \<and>
     (case j_estimatedMinutes subtask of None \<Rightarrow> False | Some m \<Rightarrow> 0 < m) \<and>
     (case j_scheduled subtask of
        None \<Rightarrow> False
      | Some sch \<Rightarrow> validateDateTime (j_start sch) \<noteq> None \<and> validateDateTime (j_end sch) \<noteq> None)"

section \<open>Scheduler.validateScheduleFeasibility\<close>

function calculateAvailableHours_while ::
  "instant \<Rightarrow> instant \<Rightarrow> SchedulingConstraints \<Rightarrow> int \<Rightarrow> int" where
  "calculateAvailableHours_while currentDate due c totalHours =
     (if currentDate < due
      then calculateAvailableHours_while (add_days currentDate 1) due c
             (if day currentDate \<in> set (daysOfWeek c)
              then totalHours + (endHour c - startHour c) else totalHours)
      else totalHours)"
  by pat_completeness auto
termination
  by (relation "measure (\<lambda>(currentDate, due, c, totalHours). nat (due - currentDate))")
     (auto simp: add_days_def)

declare calculateAvailableHours_while.simps [simp del]

definition calculateAvailableHours :: "instant \<Rightarrow> instant \<Rightarrow> SchedulingConstraints \<Rightarrow> int" where
  "calculateAvailableHours now due c =
     calculateAvailableHours_while (atHour (add_days now 1) (startHour c)) due c 0"

record Feasibility =
  feasible :: bool
  requiredHours :: rat
  availableHours :: int

text \<open>
  Hours are doubles in the source and exact rationals here; the available hours are a
  product of integers.
\<close>

definition validateScheduleFeasibility ::
  "instant \<Rightarrow> AISubtask list \<Rightarrow> instant \<Rightarrow> SchedulingConstraints \<Rightarrow> int \<Rightarrow> Feasibility" where
  "validateScheduleFeasibility now subtasks due c memberCount =
     (let totalMinutes = foldl (\<lambda>sum task. sum + estimatedMinutes task) 0 subtasks;
          required = rat_of_int totalMinutes / 60;
          available = calculateAvailableHours now due c * memberCount
      in \<lparr>feasible = (required \<le> rat_of_int available * (8 / 10)),
          requiredHours = required,
          availableHours = available\<rparr>)"

section \<open>Scheduler.balanceWorkload\<close>

text \<open>
  \<open>memberWorkload\<close> is an object used as a dictionary: an association list in the order
  in which the names were first written, which is the order of \<open>Object.keys\<close> for names
  that are not array indices. As in the scheduling passes, names are taken not to collide
  with the properties every JavaScript object inherits. The minutes are integers, so the
  comparator is a consistent ordering.
\<close>

fun addWorkload :: "(string \<times> int) list \<Rightarrow> string \<Rightarrow> int \<Rightarrow> (string \<times> int) list" where
  "addWorkload [] k v = [(k, v)]"
| "addWorkload ((k', w) # rest) k v =
     (if k' = k then (k', w + v) # rest else (k', w) # addWorkload rest k v)"

definition workload :: "(string \<times> int) list \<Rightarrow> string \<Rightarrow> int" where
  "workload memberWorkload k = (case map_of memberWorkload k of None \<Rightarrow> 0 | Some w \<Rightarrow> w)"

definition memberWorkloadOf :: "AISubtask list \<Rightarrow> (string \<times> int) list" where
  "memberWorkloadOf subtasks =
     foldl (\<lambda>memberWorkload task.
              addWorkload memberWorkload (assignee task) (estimatedMinutes task)) [] subtasks"

definition compareWorkload :: "(string \<times> int) list \<Rightarrow> string \<Rightarrow> string \<Rightarrow> int" where
  "compareWorkload memberWorkload a b = workload memberWorkload a - workload memberWorkload b"

fun balanceWorkload_loop ::
  "(string \<times> int) list \<Rightarrow> string list \<Rightarrow> nat \<Rightarrow> AISubtask list \<Rightarrow> AISubtask list" where
  "balanceWorkload_loop memberWorkload sortedMembers memberIndex [] = []"
| "balanceWorkload_loop memberWorkload sortedMembers memberIndex (task # rest) =
     task\<lparr>assignee := sortedMembers ! (memberIndex mod length sortedMembers)\<rparr> #
     balanceWorkload_loop
       (addWorkload memberWorkload
          (sortedMembers ! (memberIndex mod length sortedMembers)) (estimatedMinutes task))
       (sortBy (compareWorkload
                  (addWorkload memberWorkload
                     (sortedMembers ! (memberIndex mod length sortedMembers))
                     (estimatedMinutes task)))
          sortedMembers)
       (memberIndex + 1) rest"

text \<open>The subtasks as the returned array reads them.\<close>

definition balanceWorkload :: "AISubtask list \<Rightarrow> AISubtask list" where
  "balanceWorkload subtasks =
     balanceWorkload_loop (memberWorkloadOf subtasks)
       (sortBy (compareWorkload (memberWorkloadOf subtasks)) (map fst (memberWorkloadOf subtasks)))
       0 subtasks"

text \<open>
  The balancer as the specification words it: each subtask goes to the name whose
  running total is least at that moment, the first of the sorted names.
\<close>

fun leastLoaded_loop ::
  "(string \<times> int) list \<Rightarrow> string list \<Rightarrow> AISubtask list \<Rightarrow> AISubtask list" where
  "leastLoaded_loop memberWorkload sortedMembers [] = []"
| "leastLoaded_loop memberWorkload sortedMembers (task # rest) =
     task\<lparr>assignee := hd sortedMembers\<rparr> #
     leastLoaded_loop
       (addWorkload memberWorkload (hd sortedMembers) (estimatedMinutes task))
       (sortBy (compareWorkload
                  (addWorkload memberWorkload (hd sortedMembers) (estimatedMinutes task)))
          sortedMembers)
       rest"

definition balanceWorkload_leastLoaded :: "AISubtask list \<Rightarrow> AISubtask list" where
  "balanceWorkload_leastLoaded subtasks =
     leastLoaded_loop (memberWorkloadOf subtasks)
       (sortBy (compareWorkload (memberWorkloadOf subtasks)) (map fst (memberWorkloadOf subtasks)))
       subtasks"


subsection \<open>The records and arrays in the store\<close>

text \<open>
  \<open>balanceWorkload\<close> copies the array, not the records: both arrays hold references to
  the same records, and the loop writes the assignee into them. A store holds the
  records and the arrays, each addressed by its position.
\<close>

record store =
  records :: "AISubtask list"
  arrays :: "nat list list"

definition wellFormedStore :: "store \<Rightarrow> nat \<Rightarrow> bool" where
  "wellFormedStore st a \<longleftrightarrow>
     a < length (arrays st) \<and> list_all (\<lambda>r. r < length (records st)) (arrays st ! a)"

fun balanceWorkload_store_loop ::
  "(string \<times> int) list \<Rightarrow> string list \<Rightarrow> nat \<Rightarrow> nat list \<Rightarrow> AISubtask list \<Rightarrow> AISubtask list" where
  "balanceWorkload_store_loop memberWorkload sortedMembers memberIndex [] recs = recs"
| "balanceWorkload_store_loop memberWorkload sortedMembers memberIndex (r # rest) recs =
     balanceWorkload_store_loop
       (addWorkload memberWorkload
          (sortedMembers ! (memberIndex mod length sortedMembers)) (estimatedMinutes (recs ! r)))
       (sortBy (compareWorkload
                  (addWorkload memberWorkload
                     (sortedMembers ! (memberIndex mod length sortedMembers))
                     (estimatedMinutes (recs ! r))))
          sortedMembers)
       (memberIndex + 1) rest
       (recs[r := (recs ! r)\<lparr>assignee := sortedMembers ! (memberIndex mod length sortedMembers)\<rparr>])"

text \<open>The call \<open>balanceWorkload(subtasks)\<close> on the array at \<open>a\<close>: the new array and the store.\<close>

definition balanceWorkload_store :: "store \<Rightarrow> nat \<Rightarrow> nat \<times> store" where
  "balanceWorkload_store st a =
     (let subtasks = map (\<lambda>r. records st ! r) (arrays st ! a);
          memberWorkload = memberWorkloadOf subtasks;
          sortedMembers = sortBy (compareWorkload memberWorkload) (map fst memberWorkload)
      in (length (arrays st),
          \<lparr>records = balanceWorkload_store_loop memberWorkload sortedMembers 0
                        (arrays st ! a) (records st),
           arrays = arrays st @ [arrays st ! a]\<rparr>))"

section \<open>Properties of a schedule\<close>


section \<open>Example values\<close>

definition weekdays9to17 :: SchedulingConstraints where
  "weekdays9to17 =
     \<lparr>workHoursPerDay = 8, startHour = 9, endHour = 17, daysOfWeek = [1, 2, 3, 4, 5]\<rparr>"

definition exampleTask :: "string \<Rightarrow> int \<Rightarrow> AISubtask" where
  "exampleTask a m =
     \<lparr>part = 1, title = ''T'', details = ''D'', assignee = a, estimatedMinutes = m,
      scheduled = \<lparr>start = 0, end_at = 0\<rparr>\<rparr>"

definition exampleInput :: "string \<Rightarrow> PlanningInput" where
  "exampleInput memberName =
     \<lparr>input_title = ''X'', description = [], dueDate = 864000000, parts = 1, teamId = None,
      members = [\<lparr>member_id = None, name = memberName, role = None\<rparr>],
      constraints = weekdays9to17\<rparr>"

definition exampleCandidate :: AISubtaskJson where
  "exampleCandidate =
     \<lparr>j_part = Some 1, j_title = Some ''T'', j_details = Some ''D'',
      j_assignee = Some ''Alice'', j_estimatedMinutes = Some 120,
      j_scheduled = Some \<lparr>j_start = Some (Parseable 0), j_end = Some (Parseable 10800000)\<rparr>\<rparr>"

definition exampleStore :: store where
  "exampleStore =
     \<lparr>records = [exampleTask ''A'' 10, exampleTask ''A'' 20, exampleTask ''B'' 5],
      arrays = [[0, 1, 2]]\<rparr>"

section \<open>Lemmas on time\<close>
















section \<open>Lemmas on the loops over days\<close>


















section \<open>Lemmas on the loops over tasks\<close>






subsection \<open>rescheduleTasks\<close>







subsection \<open>scheduleTasks\<close>









section \<open>Lemmas on the fallback plan and on repair\<close>

























section \<open>Lemmas on repair, feasibility and the balancer\<close>

subsection \<open>repair\<close>

lemma orNumber_idem: "orNumber (Some (orNumber x d)) d = orNumber x d"
  by (auto simp: orNumber_def split: option.splits)

lemma orString_idem: "orString (Some (orString x d)) d = orString x d"
  by (auto simp: orString_def split: option.splits)

lemma repairSubtask_idem:
  "repairSubtask now2 input len i (repairSubtask now1 input len i s) =
   repairSubtask now1 input len i s"
proof -
  let ?names = "map name (members input)"
  have mem: "?names \<noteq> [] \<Longrightarrow> ?names ! (i mod length ?names) \<in> set ?names"
    by (rule nth_mem) simp
  show ?thesis
    using mem
    by (auto simp: repairSubtask_def Let_def orNumber_idem orString_idem split: option.splits)
qed

lemma validateAndRepairPlan_idem:
  assumes "validateAndRepairPlan now1 (Some subtasks) input = Inr once"
  shows "validateAndRepairPlan now2 (Some once) input = Inr once"
proof -
  let ?n = "length subtasks"
  from assms have once: "once = map (\<lambda>(index, subtask). repairSubtask now1 input ?n index subtask)
                 (enumerate 0 subtasks)"
    by (simp add: validateAndRepairPlan_def)
  then have len: "length once = ?n" by simp
  have nth: "once ! i = repairSubtask now1 input ?n i (subtasks ! i)" if "i < ?n" for i
    using that by (simp add: once nth_enumerate_eq)
  have "map (\<lambda>(index, subtask). repairSubtask now2 input (length once) index subtask)
          (enumerate 0 once) = once"
  proof (rule nth_equalityI)
    show "length (map (\<lambda>(index, subtask). repairSubtask now2 input (length once) index subtask)
          (enumerate 0 once)) = length once" by simp
  next
    fix i assume "i < length (map (\<lambda>(index, subtask).
        repairSubtask now2 input (length once) index subtask) (enumerate 0 once))"
    then have i: "i < ?n" using len by simp
    then show "map (\<lambda>(index, subtask). repairSubtask now2 input (length once) index subtask)
          (enumerate 0 once) ! i = once ! i"
      using len by (simp add: nth_enumerate_eq nth [OF i] repairSubtask_idem)
  qed
  then show ?thesis by (simp add: validateAndRepairPlan_def)
qed

subsection \<open>feasibility\<close>

lemma calculateAvailableHours_while_ge:
  "startHour c \<le> endHour c \<Longrightarrow> acc \<le> calculateAvailableHours_while cur due c acc"
proof (induction cur due c acc rule: calculateAvailableHours_while.induct)
  case (1 currentDate due c totalHours)
  show ?case
  proof (cases "currentDate < due")
    case True
    from 1(1) [OF True 1(2)] True 1(2) show ?thesis
      by (subst calculateAvailableHours_while.simps) (auto split: if_splits)
  next
    case False
    then show ?thesis by (subst calculateAvailableHours_while.simps) simp
  qed
qed

lemma calculateAvailableHours_while_mono:
  "startHour c \<le> endHour c \<Longrightarrow> due \<le> due' \<Longrightarrow>
   calculateAvailableHours_while cur due c acc \<le> calculateAvailableHours_while cur due' c acc"
proof (induction cur due c acc rule: calculateAvailableHours_while.induct)
  case (1 currentDate due c totalHours)
  show ?case
  proof (cases "currentDate < due")
    case True
    with 1(3) have "currentDate < due'" by simp
    with True 1(1) [OF True 1(2,3)] show ?thesis
      by (subst calculateAvailableHours_while.simps,
          subst (2) calculateAvailableHours_while.simps) simp
  next
    case False
    then have "calculateAvailableHours_while currentDate due c totalHours = totalHours"
      by (subst calculateAvailableHours_while.simps) simp
    with calculateAvailableHours_while_ge [OF 1(2), of totalHours currentDate due']
    show ?thesis by simp
  qed
qed


subsection \<open>balanceWorkload on the store\<close>

lemma balanceWorkload_store_loop_length:
  "length (balanceWorkload_store_loop mw sm i refs recs) = length recs"
  by (induction refs arbitrary: mw sm i recs) simp_all

lemma balanceWorkload_store_loop_frame:
  "(balanceWorkload_store_loop mw sm i refs recs ! r)\<lparr>assignee := x\<rparr> =
   (recs ! r)\<lparr>assignee := x\<rparr>"
proof (induction refs arbitrary: mw sm i recs)
  case Nil
  show ?case by simp
next
  case (Cons ref rest)
  have "(recs[ref := (recs ! ref)\<lparr>assignee := y\<rparr>] ! r)\<lparr>assignee := x\<rparr> =
        (recs ! r)\<lparr>assignee := x\<rparr>" for y
  proof (cases "r = ref")
    case True
    then show ?thesis by (cases "ref < length recs") (simp_all add: list_update_beyond)
  next
    case False
    then show ?thesis by simp
  qed
  with Cons show ?case by simp
qed

lemma balanceWorkload_store_loop_others:
  "r \<notin> set refs \<Longrightarrow> balanceWorkload_store_loop mw sm i refs recs ! r = recs ! r"
  by (induction refs arbitrary: mw sm i recs) (auto simp: nth_list_update_neq)

lemma balanceWorkload_store_loop_distinct:
  "distinct refs \<Longrightarrow> \<forall>r\<in>set refs. r < length recs \<Longrightarrow>
   map ((!) (balanceWorkload_store_loop mw sm i refs recs)) refs =
   balanceWorkload_loop mw sm i (map ((!) recs) refs)"
proof (induction refs arbitrary: mw sm i recs)
  case Nil
  show ?case by simp
next
  case (Cons ref rest)
  let ?am = "sm ! (i mod length sm)"
  let ?recs = "recs[ref := (recs ! ref)\<lparr>assignee := ?am\<rparr>]"
  let ?mw = "addWorkload mw ?am (estimatedMinutes (recs ! ref))"
  let ?sm = "sortBy (compareWorkload ?mw) sm"
  from Cons.prems have d: "distinct rest" "ref \<notin> set rest" and
    b: "ref < length recs" "\<forall>r\<in>set rest. r < length ?recs" by simp_all
  have same: "map ((!) ?recs) rest = map ((!) recs) rest"
  proof (rule map_cong [OF refl])
    fix x assume "x \<in> set rest"
    with d(2) have "ref \<noteq> x" by auto
    then show "?recs ! x = recs ! x" by (rule nth_list_update_neq)
  qed
  have hd: "balanceWorkload_store_loop ?mw ?sm (i + 1) rest ?recs ! ref =
            (recs ! ref)\<lparr>assignee := ?am\<rparr>"
    using balanceWorkload_store_loop_others [OF d(2)] b(1) by simp
  from Cons.IH [OF d(1) b(2), of ?mw ?sm "i + 1"] same hd show ?case by simp
qed

lemma balanceWorkload_store_result:
  assumes "wellFormedStore st a"
  shows "fst (balanceWorkload_store st a) = length (arrays st) \<and>
         fst (balanceWorkload_store st a) \<noteq> a \<and>
         arrays (snd (balanceWorkload_store st a)) ! fst (balanceWorkload_store st a) =
           arrays st ! a \<and>
         take (length (arrays st)) (arrays (snd (balanceWorkload_store st a))) = arrays st \<and>
         length (records (snd (balanceWorkload_store st a))) = length (records st) \<and>
         (\<forall>r. part (records (snd (balanceWorkload_store st a)) ! r) = part (records st ! r) \<and>
              title (records (snd (balanceWorkload_store st a)) ! r) = title (records st ! r) \<and>
              details (records (snd (balanceWorkload_store st a)) ! r) = details (records st ! r) \<and>
              estimatedMinutes (records (snd (balanceWorkload_store st a)) ! r) =
                estimatedMinutes (records st ! r) \<and>
              scheduled (records (snd (balanceWorkload_store st a)) ! r) =
                scheduled (records st ! r)) \<and>
         (\<forall>r. r \<notin> set (arrays st ! a) \<longrightarrow>
              records (snd (balanceWorkload_store st a)) ! r = records st ! r) \<and>
         (distinct (arrays st ! a) \<longrightarrow>
            map (\<lambda>r. records (snd (balanceWorkload_store st a)) ! r) (arrays st ! a) =
            balanceWorkload (map (\<lambda>r. records st ! r) (arrays st ! a)))"
proof -
  let ?refs = "arrays st ! a"
  let ?subtasks = "map (\<lambda>r. records st ! r) ?refs"
  let ?mw = "memberWorkloadOf ?subtasks"
  let ?sm = "sortBy (compareWorkload ?mw) (map fst ?mw)"
  let ?recs = "balanceWorkload_store_loop ?mw ?sm 0 ?refs (records st)"
  have res: "balanceWorkload_store st a =
      (length (arrays st), \<lparr>records = ?recs, arrays = arrays st @ [?refs]\<rparr>)"
    by (simp add: balanceWorkload_store_def Let_def)
  from assms have a: "a < length (arrays st)" and b: "\<forall>r\<in>set ?refs. r < length (records st)"
    by (simp_all add: wellFormedStore_def list_all_iff)
  have fields: "part (?recs ! r) = part (records st ! r) \<and>
      title (?recs ! r) = title (records st ! r) \<and>
      details (?recs ! r) = details (records st ! r) \<and>
      estimatedMinutes (?recs ! r) = estimatedMinutes (records st ! r) \<and>
      scheduled (?recs ! r) = scheduled (records st ! r)" for r
  proof -
    have e: "(?recs ! r)\<lparr>assignee := []\<rparr> = (records st ! r)\<lparr>assignee := []\<rparr>"
      by (rule balanceWorkload_store_loop_frame)
    have "f (?recs ! r) = f (records st ! r)"
      if "\<And>t :: AISubtask. f (t\<lparr>assignee := []\<rparr>) = f t" for f :: "AISubtask \<Rightarrow> 'b"
      using arg_cong [OF e, of f] that by simp
    from this [of part] this [of title] this [of details] this [of estimatedMinutes]
      this [of scheduled]
    show ?thesis by simp
  qed
  have others: "r \<notin> set ?refs \<Longrightarrow> ?recs ! r = records st ! r" for r
    by (rule balanceWorkload_store_loop_others)
  have pure: "distinct ?refs \<Longrightarrow> map (\<lambda>r. ?recs ! r) ?refs = balanceWorkload ?subtasks"
    using balanceWorkload_store_loop_distinct [OF _ b, of ?mw ?sm 0]
    by (simp add: balanceWorkload_def)
  show ?thesis
    unfolding res using a fields others pure
    by (simp add: balanceWorkload_store_loop_length nth_append)
qed

section \<open>The claims\<close>


subsection \<open>C9: the scheduling pass terminates\<close>



subsection \<open>C1: the start of a scheduled subtask\<close>




text \<open>
  The amended claim gives no lower bound on the hour of a subtask placed by
  \<open>scheduleTasks\<close>: that pass takes the member's next free instant as it is when its day
  is a working day. With the hours 22 to 23 on every day, the first subtask of the fallback
  plan ends at midnight and the second starts at 00:15.
\<close>

lemma scheduleTasks_start_before_startHour:
  "map_option (map_sum id (map (\<lambda>t. hour (start (scheduled t)))))
     (generateFallbackPlan 0
        ((exampleInput ''Alice'')
           \<lparr>constraints := \<lparr>workHoursPerDay = 1, startHour = 22, endHour = 23,
                              daysOfWeek = [0, 1, 2, 3, 4, 5, 6]\<rparr>\<rparr>)) =
   Some (Inr [22, 0, 3, 7, 9, 10, 12, 14])"
  by code_simp

subsection \<open>C2: the intervals of one member\<close>




subsection \<open>C3: the end of a scheduled subtask\<close>




subsection \<open>C4: the fallback plan for one member\<close>




subsection \<open>C5: the member a subtask is given to\<close>

text \<open>
  C5 says that each subtask goes to the name whose running total is least. The code
  says so too, in its comment, but takes \<open>sortedMembers[memberIndex % length]\<close>: only the
  first subtask goes to the first of the sorted names. For the subtasks A: 100, B: 10 and
  B: 10 the totals are 100 for A and 20 for B; the first subtask goes to B, whose total
  becomes 120, and the second goes to B again, the second of the sorted names, while A is
  the least loaded. The balancer worded as the specification has it gives the second
  subtask to A.
\<close>

theorem balancer_assigns_by_index:
  "balanceWorkload [exampleTask ''A'' 100, exampleTask ''B'' 10, exampleTask ''B'' 10] =
     [exampleTask ''B'' 100, exampleTask ''B'' 10, exampleTask ''A'' 10] \<and>
   memberWorkloadOf [exampleTask ''A'' 100, exampleTask ''B'' 10, exampleTask ''B'' 10] =
     [(''A'', 100), (''B'', 20)] \<and>
   addWorkload [(''A'', 100), (''B'', 20)] ''B'' 100 = [(''A'', 100), (''B'', 120)] \<and>
   balanceWorkload_leastLoaded
     [exampleTask ''A'' 100, exampleTask ''B'' 10, exampleTask ''B'' 10] =
     [exampleTask ''B'' 100, exampleTask ''A'' 10, exampleTask ''A'' 10]"
  by code_simp

subsection \<open>C6: the spread of the totals\<close>


subsection \<open>C7: repairing twice\<close>

text \<open>
  C7. When every record of a candidate list is well formed for the members of the input,
  repairing the once-repaired list, at whatever later time, returns the once-repaired
  list. (The lemma \<open>validateAndRepairPlan_idem\<close> shows the same of any candidate list.)
\<close>

theorem repair_idempotent:
  assumes "list_all (wellFormed (members input)) subtasks"
    and "validateAndRepairPlan now1 (Some subtasks) input = Inr once"
  shows "validateAndRepairPlan now2 (Some once) input = Inr once"
  using assms(2) by (rule validateAndRepairPlan_idem)

theorem repair_idempotent_witness:
  "list_all (wellFormed (members (exampleInput ''Alice''))) [exampleCandidate] \<and>
   validateAndRepairPlan 0 (Some [exampleCandidate]) (exampleInput ''Alice'') =
     Inr [exampleCandidate] \<and>
   validateAndRepairPlan 1000 (Some [exampleCandidate]) (exampleInput ''Alice'') =
     Inr [exampleCandidate]"
proof -
  have w: "list_all (wellFormed (members (exampleInput ''Alice''))) [exampleCandidate]"
    by code_simp
  have r: "validateAndRepairPlan 0 (Some [exampleCandidate]) (exampleInput ''Alice'') =
     Inr [exampleCandidate]"
    by code_simp
  from w r repair_idempotent [OF w r, of 1000] show ?thesis by simp
qed

subsection \<open>C8: a later due date\<close>

text \<open>
  C8. For the same subtasks, constraints with the start hour before the end hour and a
  member count that is not negative, a later due date gives at least as many available
  hours, and a schedule that was feasible stays feasible.
\<close>

theorem feasibility_monotone:
  assumes "startHour c < endHour c" and "0 \<le> memberCount" and "due \<le> due'"
  shows "availableHours (validateScheduleFeasibility now subtasks due c memberCount) \<le>
         availableHours (validateScheduleFeasibility now subtasks due' c memberCount) \<and>
         (feasible (validateScheduleFeasibility now subtasks due c memberCount) \<longrightarrow>
          feasible (validateScheduleFeasibility now subtasks due' c memberCount))"
proof -
  define required where
    "required = rat_of_int (foldl (\<lambda>sum task. sum + estimatedMinutes task) 0 subtasks) / 60"
  define available where "available d = calculateAvailableHours now d c * memberCount" for d
  have v: "validateScheduleFeasibility now subtasks d c memberCount =
      \<lparr>feasible = (required \<le> rat_of_int (available d) * (8 / 10)),
       requiredHours = required, availableHours = available d\<rparr>" for d
    by (simp only: validateScheduleFeasibility_def Let_def required_def available_def)
  have "calculateAvailableHours now due c \<le> calculateAvailableHours now due' c"
    unfolding calculateAvailableHours_def
    using assms(1,3) by (intro calculateAvailableHours_while_mono) simp_all
  then have a: "available due \<le> available due'"
    unfolding available_def using assms(2) by (rule mult_right_mono)
  then have "rat_of_int (available due) \<le> rat_of_int (available due')"
    by (simp only: of_int_le_iff)
  then have b: "rat_of_int (available due) * (8 / 10) \<le> rat_of_int (available due') * (8 / 10)"
    by (rule mult_right_mono) simp
  have f: "feasible (validateScheduleFeasibility now subtasks d c memberCount) \<longleftrightarrow>
      required \<le> rat_of_int (available d) * (8 / 10)" for d
    unfolding v by (simp only: Feasibility.select_convs)
  have h: "availableHours (validateScheduleFeasibility now subtasks d c memberCount) = available d"
    for d unfolding v by (simp only: Feasibility.select_convs)
  show ?thesis unfolding f h using a b by (blast intro: order_trans)
qed

theorem feasibility_monotone_witness:
  "startHour weekdays9to17 < endHour weekdays9to17 \<and> (0 :: int) \<le> 1 \<and>
   (864000000 :: int) \<le> 1728000000 \<and>
   availableHours (validateScheduleFeasibility 0 [exampleTask ''Alice'' 100] 864000000
                     weekdays9to17 1) = 48 \<and>
   48 \<le> availableHours (validateScheduleFeasibility 0 [exampleTask ''Alice'' 100] 1728000000
                           weekdays9to17 1) \<and>
   feasible (validateScheduleFeasibility 0 [exampleTask ''Alice'' 100] 864000000
               weekdays9to17 1) \<and>
   feasible (validateScheduleFeasibility 0 [exampleTask ''Alice'' 100] 1728000000
               weekdays9to17 1)"
proof -
  have h: "startHour weekdays9to17 < endHour weekdays9to17" "(0 :: int) \<le> 1"
    "(864000000 :: int) \<le> 1728000000"
    by (simp_all add: weekdays9to17_def)
  have a: "availableHours (validateScheduleFeasibility 0 [exampleTask ''Alice'' 100] 864000000
                     weekdays9to17 1) = 48"
    by code_simp
  have f: "feasible (validateScheduleFeasibility 0 [exampleTask ''Alice'' 100] 864000000
               weekdays9to17 1)"
    by code_simp
  from feasibility_monotone [OF h, of 0 "[exampleTask ''Alice'' 100]"] h a f
  show ?thesis by simp
qed

subsection \<open>C10: what balanceWorkload writes\<close>

text \<open>
  C10. \<open>balanceWorkload\<close> on the array at \<open>a\<close> returns a new array \<open>a'\<close> holding the
  references of the array it was given; the caller's array and every other array hold what
  they held. Of every record only the assignee may have changed, and a record outside the
  array is as it was. Read through the caller's array, the records now show the
  reassigned assignees: they are the subtasks \<open>balanceWorkload\<close> computes (for an array
  that holds no record twice).
\<close>

theorem balanceWorkload_store_frame:
  assumes "wellFormedStore st a" and "balanceWorkload_store st a = (a', st')"
  shows "a' \<noteq> a \<and> \<not> a' < length (arrays st) \<and>
         arrays st' ! a' = arrays st ! a \<and>
         arrays st' ! a = arrays st ! a \<and>
         take (length (arrays st)) (arrays st') = arrays st \<and>
         length (records st') = length (records st) \<and>
         (\<forall>r. part (records st' ! r) = part (records st ! r) \<and>
              title (records st' ! r) = title (records st ! r) \<and>
              details (records st' ! r) = details (records st ! r) \<and>
              estimatedMinutes (records st' ! r) = estimatedMinutes (records st ! r) \<and>
              scheduled (records st' ! r) = scheduled (records st ! r)) \<and>
         (\<forall>r. r \<notin> set (arrays st ! a) \<longrightarrow> records st' ! r = records st ! r) \<and>
         (distinct (arrays st ! a) \<longrightarrow>
            map (\<lambda>r. records st' ! r) (arrays st ! a) =
            balanceWorkload (map (\<lambda>r. records st ! r) (arrays st ! a)))"
proof -
  from assms(2) have f: "fst (balanceWorkload_store st a) = a'"
    and s: "snd (balanceWorkload_store st a) = st'" by simp_all
  from assms(1) have a: "a < length (arrays st)" by (simp add: wellFormedStore_def)
  have t: "take (length (arrays st)) (arrays st') = arrays st"
    using balanceWorkload_store_result [OF assms(1)] unfolding f s by blast
  have "arrays st' ! a = take (length (arrays st)) (arrays st') ! a"
    using a by simp
  then have "arrays st' ! a = arrays st ! a" unfolding t .
  moreover have "\<not> a' < length (arrays st)"
    using balanceWorkload_store_result [OF assms(1)] unfolding f s by simp
  ultimately show ?thesis
    using balanceWorkload_store_result [OF assms(1)] unfolding f s by blast
qed

theorem balanceWorkload_store_frame_witness:
  "wellFormedStore exampleStore 0 \<and>
   balanceWorkload_store exampleStore 0 =
     (1, \<lparr>records = [exampleTask ''B'' 10, exampleTask ''A'' 20, exampleTask ''B'' 5],
          arrays = [[0, 1, 2], [0, 1, 2]]\<rparr>) \<and>
   distinct (arrays exampleStore ! 0) \<and>
   map (\<lambda>r. [exampleTask ''B'' 10, exampleTask ''A'' 20, exampleTask ''B'' 5] ! r)
     (arrays exampleStore ! 0) =
     balanceWorkload (map (\<lambda>r. records exampleStore ! r) (arrays exampleStore ! 0))"
proof -
  have w: "wellFormedStore exampleStore 0" by code_simp
  have e: "balanceWorkload_store exampleStore 0 =
     (1, \<lparr>records = [exampleTask ''B'' 10, exampleTask ''A'' 20, exampleTask ''B'' 5],
          arrays = [[0, 1, 2], [0, 1, 2]]\<rparr>)" by code_simp
  have d: "distinct (arrays exampleStore ! 0)" by code_simp
  from balanceWorkload_store_frame [OF w e] w e d show ?thesis by simp
qed

end
